theory Spec2Isabelle
  imports Main "HOL-Library.Word" "HOL-Library.Sublist"
begin

section \<open>Data of \<^verbatim>\<open>pkg/config/config.go\<close>\<close>

text \<open>
  Go's \<^verbatim>\<open>int64\<close> is a 64-bit word; Go strings are byte strings.
\<close>

type_synonym int64 = "64 word"

text \<open>
  A Go \<^verbatim>\<open>error\<close> value is either one built by this package with \<^verbatim>\<open>fmt.Errorf\<close>
  (it carries the formatted message), or one handed back by a library call
  (\<^verbatim>\<open>ioutil.ReadDir\<close>, \<^verbatim>\<open>os.Create\<close>, \<^verbatim>\<open>File.Truncate\<close>, \<^verbatim>\<open>Cmd.Run\<close>).
  The value \<^verbatim>\<open>nil\<close> of type \<^verbatim>\<open>error\<close> is \<open>None\<close> of \<open>error option\<close>.
\<close>

datatype error = Errorf string | SysError string

text \<open>The \<^verbatim>\<open>Error()\<close> method: the text of an error value.\<close>

fun Error :: "error \<Rightarrow> string" where
  "Error (Errorf msg) = msg"
| "Error (SysError msg) = msg"

text \<open>
  A call either returns its results or panics (a nil pointer is dereferenced, a nil
  function value is called).
\<close>

datatype 'a outcome = Panic | Returns 'a

text \<open>
  Modelled from the spec: the types \<^verbatim>\<open>v1.VolumeStatus\<close>, \<^verbatim>\<open>v1.Volume\<close> and
  \<^verbatim>\<open>v1.VirtualMachineInstance\<close> are declared in package
  \<^verbatim>\<open>kubevirt.io/client-go/api/v1\<close>, which is not part of the source at hand. The
  records carry the fields that \<^verbatim>\<open>findIsoSize\<close> reads: a volume status is a volume
  name with a byte size, the instance status holds the list of volume statuses.
  \<^verbatim>\<open>vs_Name\<close>, \<^verbatim>\<open>vs_Size\<close> are \<^verbatim>\<open>VolumeStatus.Name\<close>, \<^verbatim>\<open>VolumeStatus.Size\<close>;
  \<^verbatim>\<open>vol_Name\<close> is \<^verbatim>\<open>Volume.Name\<close>.
\<close>

record VolumeStatus =
  vs_Name :: string
  vs_Size :: int64

record VirtualMachineInstanceStatus =
  VolumeStatus :: "VolumeStatus list"

record VirtualMachineInstance =
  Status :: VirtualMachineInstanceStatus

record Volume =
  vol_Name :: string

text \<open>
  \<^verbatim>\<open>os.FileInfo\<close>, as far as this package looks at it: \<^verbatim>\<open>Name()\<close>. Whether the
  entry is itself a directory is kept, since the listing is not descended into.
\<close>

record FileInfo =
  fi_Name :: string
  fi_IsDir :: bool

text \<open>An open \<^verbatim>\<open>*os.File\<close> is identified by its descriptor.\<close>

type_synonym File = nat

section \<open>The library calls the package makes\<close>

text \<open>
  The operating system and the Go standard library are outside the package. Their
  calls are parameters of the model, each one a state transformer over a world
  \<open>'w\<close> that the package never inspects:
  \<^item> \<^verbatim>\<open>ioutil.ReadDir(dirname)\<close> returns \<^verbatim>\<open>([]os.FileInfo, error)\<close>;
  \<^item> \<^verbatim>\<open>filepath.Join(dir, name)\<close> is a pure function on strings;
  \<^item> \<^verbatim>\<open>exec.Command(name, args...).Run()\<close> returns \<^verbatim>\<open>error\<close>;
  \<^item> \<^verbatim>\<open>os.Create(name)\<close> returns \<^verbatim>\<open>(*os.File, error)\<close>;
  \<^item> \<^verbatim>\<open>f.Truncate(size)\<close> and \<^verbatim>\<open>f.Close()\<close> return \<^verbatim>\<open>error\<close>.
\<close>

record 'w sys =
  ioutil_ReadDir :: "string \<Rightarrow> 'w \<Rightarrow> (FileInfo list \<times> error option) \<times> 'w"
  filepath_Join :: "string \<Rightarrow> string \<Rightarrow> string"
  exec_Run :: "string \<Rightarrow> string list \<Rightarrow> 'w \<Rightarrow> error option \<times> 'w"
  os_Create :: "string \<Rightarrow> 'w \<Rightarrow> (File \<times> error option) \<times> 'w"
  File_Truncate :: "File \<Rightarrow> int64 \<Rightarrow> 'w \<Rightarrow> error option \<times> 'w"
  File_Close :: "File \<Rightarrow> 'w \<Rightarrow> error option \<times> 'w"

section \<open>The creation-strategy slots\<close>

text \<open>
  \<^verbatim>\<open>isoCreationFunc\<close> and \<^verbatim>\<open>emptyIsoCreationFunc\<close> are function types; a value of
  a Go function type may be \<^verbatim>\<open>nil\<close>, hence the \<open>option\<close> in the slots. The two
  package variables \<^verbatim>\<open>createISOImage\<close> and \<^verbatim>\<open>createEmptyISOImage\<close> are the mutable
  state of the package.
\<close>

type_synonym 'w isoCreationFunc = "string \<Rightarrow> string \<Rightarrow> string list \<Rightarrow> 'w \<Rightarrow> error option \<times> 'w"

type_synonym 'w emptyIsoCreationFunc = "string \<Rightarrow> int64 \<Rightarrow> 'w \<Rightarrow> error option \<times> 'w"

record 'w globals =
  createISOImage :: "'w isoCreationFunc option"
  createEmptyISOImage :: "'w emptyIsoCreationFunc option"

definition setIsoCreationFunction :: "'w isoCreationFunc option \<Rightarrow> 'w globals \<Rightarrow> 'w globals" where
  "setIsoCreationFunction isoFunc g = g\<lparr>createISOImage := isoFunc\<rparr>"

definition setEmptyIsoCreationFunction :: "'w emptyIsoCreationFunc option \<Rightarrow> 'w globals \<Rightarrow> 'w globals" where
  "setEmptyIsoCreationFunction emptyIsoFunc g = g\<lparr>createEmptyISOImage := emptyIsoFunc\<rparr>"

section \<open>\<^verbatim>\<open>getFilesLayout\<close>\<close>

text \<open>
  The \<^verbatim>\<open>range\<close> loop over the listing: each entry appends
  \<^verbatim>\<open>fileName + "=" + filepath.Join(dirPath, fileName)\<close> to \<^verbatim>\<open>filesPath\<close>.
\<close>

fun rangeFiles :: "'w sys \<Rightarrow> string \<Rightarrow> FileInfo list \<Rightarrow> string list \<Rightarrow> string list" where
  "rangeFiles sys dirPath [] filesPath = filesPath"
| "rangeFiles sys dirPath (file # rest) filesPath =
     (let fileName = fi_Name file
      in rangeFiles sys dirPath rest
           (filesPath @ [fileName @ ''='' @ filepath_Join sys dirPath fileName]))"

text \<open>
  \<^verbatim>\<open>filesPath\<close> starts as the nil slice; on an error of \<^verbatim>\<open>ioutil.ReadDir\<close> the
  function returns \<^verbatim>\<open>nil, err\<close> whatever listing came with the error.
\<close>

definition getFilesLayout :: "'w sys \<Rightarrow> string \<Rightarrow> 'w \<Rightarrow> (string list \<times> error option) \<times> 'w" where
  "getFilesLayout sys dirPath w =
     (let filesPath = [];
          ((files, err), w1) = ioutil_ReadDir sys dirPath w
      in if err \<noteq> None then (([], err), w1)
         else ((rangeFiles sys dirPath files filesPath, None), w1))"

section \<open>\<^verbatim>\<open>defaultCreateIsoImage\<close>\<close>

definition defaultCreateIsoImage :: "'w sys \<Rightarrow> 'w isoCreationFunc" where
  "defaultCreateIsoImage sys output volID files w =
     (let volID = (if volID = [] then ''cfgdata'' else volID);
          args = [];
          args = args @ [''-output''];
          args = args @ [output];
          args = args @ [''-follow-links''];
          args = args @ [''-volid''];
          args = args @ [volID];
          args = args @ [''-joliet''];
          args = args @ [''-rock''];
          args = args @ [''-graft-points''];
          args = args @ [''-partition_cyl_align''];
          args = args @ [''on''];
          args = args @ files;
          isoBinary = ''xorrisofs'';
          (err, w1) = exec_Run sys isoBinary args w
      in if err \<noteq> None then (err, w1) else (None, w1))"

section \<open>\<^verbatim>\<open>defaultCreateEmptyIsoImage\<close>\<close>

text \<open>
  The parameter \<^verbatim>\<open>size\<close> is written \<open>sz\<close> (\<open>size\<close> is a constant of HOL).
  \<^verbatim>\<open>fmt.Errorf("failed to create empty iso: '%s'", output)\<close> puts the path between
  single quotes (character \<open>0x27\<close>). \<^verbatim>\<open>defer f.Close()\<close> is registered after
  \<^verbatim>\<open>f.Truncate\<close> has run and before its error is looked at, so the file is closed
  on both returns that follow, and the result of \<^verbatim>\<open>Close\<close> is dropped.
\<close>

definition defaultCreateEmptyIsoImage :: "'w sys \<Rightarrow> 'w emptyIsoCreationFunc" where
  "defaultCreateEmptyIsoImage sys output sz w =
     (let ((f, err), w1) = os_Create sys output w
      in if err \<noteq> None
         then (Some (Errorf (''failed to create empty iso: '' @ [CHR 0x27] @ output @ [CHR 0x27])), w1)
         else
           (let (err, w2) = File_Truncate sys f sz w1;
                (closeErr, w3) = File_Close sys f w2
            in if err \<noteq> None
               then (Some (Errorf (''failed to inflate empty iso: '' @ [CHR 0x27] @ output @ [CHR 0x27])), w3)
               else (None, w3)))"

text \<open>The initial values of the two package variables.\<close>

definition initGlobals :: "'w sys \<Rightarrow> 'w globals" where
  "initGlobals sys =
     \<lparr>createISOImage = Some (defaultCreateIsoImage sys),
      createEmptyISOImage = Some (defaultCreateEmptyIsoImage sys)\<rparr>"

section \<open>\<^verbatim>\<open>createIsoConfigImage\<close>\<close>

definition createIsoConfigImage ::
  "'w globals \<Rightarrow> string \<Rightarrow> string \<Rightarrow> string list \<Rightarrow> int64 \<Rightarrow> 'w \<Rightarrow> (error option \<times> 'w) outcome" where
  "createIsoConfigImage g output volID files sz w =
     (case (if sz = 0
            then (case createISOImage g of
                    None \<Rightarrow> Panic
                  | Some isoFunc \<Rightarrow> Returns (isoFunc output volID files w))
            else (case createEmptyISOImage g of
                    None \<Rightarrow> Panic
                  | Some emptyIsoFunc \<Rightarrow> Returns (emptyIsoFunc output sz w))) of
        Panic \<Rightarrow> Panic
      | Returns (err, w1) \<Rightarrow> if err \<noteq> None then Returns (err, w1) else Returns (None, w1))"

section \<open>\<^verbatim>\<open>findIsoSize\<close>\<close>

text \<open>
  The \<^verbatim>\<open>range\<close> loop over \<^verbatim>\<open>vmi.Status.VolumeStatus\<close>. \<open>Some r\<close>: the loop body
  returned \<open>r\<close> (or panicked, reading \<^verbatim>\<open>volume.Name\<close> through a nil \<^verbatim>\<open>volume\<close>);
  \<open>None\<close>: the loop ran to its end.
\<close>

fun rangeVolumeStatus :: "VolumeStatus list \<Rightarrow> Volume option \<Rightarrow> (int64 \<times> error option) outcome option" where
  "rangeVolumeStatus [] volume = None"
| "rangeVolumeStatus (vs # rest) volume =
     (case volume of
        None \<Rightarrow> Some Panic
      | Some v \<Rightarrow>
          if vs_Name vs = vol_Name v then Some (Returns (vs_Size vs, None))
          else rangeVolumeStatus rest volume)"

definition findIsoSize ::
  "VirtualMachineInstance option \<Rightarrow> Volume option \<Rightarrow> bool \<Rightarrow> (int64 \<times> error option) outcome" where
  "findIsoSize vmi volume emptyIso =
     (if emptyIso then
        (case vmi of
           None \<Rightarrow> Panic
         | Some m \<Rightarrow>
             (case rangeVolumeStatus (VolumeStatus (Status m)) volume of
                Some r \<Rightarrow> r
              | None \<Rightarrow>
                  (case volume of
                     None \<Rightarrow> Panic
                   | Some v \<Rightarrow>
                       Returns (0, Some (Errorf (''failed to find the status of volume '' @ vol_Name v))))))
      else Returns (0, None))"

section \<open>Stand-ins for running the model\<close>

text \<open>
  What the package's unit tests install through the two setters: strategies that
  only record that they were called, and with which arguments, and report success.
\<close>

datatype call =
  IsoCall string string "string list"
| EmptyIsoCall string int64

definition recordingGlobals :: "call list globals" where
  "recordingGlobals =
     \<lparr>createISOImage = Some (\<lambda>output volID files calls. (None, calls @ [IsoCall output volID files])),
      createEmptyISOImage = Some (\<lambda>output sz calls. (None, calls @ [EmptyIsoCall output sz]))\<rparr>"

text \<open>
  A scripted operating system: every library call is appended to a trace and answers
  with the scripted result. \<^verbatim>\<open>os.Create\<close> hands out descriptor 3; the path join
  puts one separator between directory and name, which is what \<^verbatim>\<open>filepath.Join\<close>
  yields for a clean directory path and a plain file name.
\<close>

datatype syscall =
  ReadDirCall string
| RunCall string "string list"
| CreateCall string
| TruncateCall File int64
| CloseCall File

definition scriptedSys ::
  "FileInfo list \<times> error option \<Rightarrow> error option \<Rightarrow> error option \<Rightarrow> error option \<Rightarrow> syscall list sys" where
  "scriptedSys listing runErr createErr truncateErr =
     \<lparr>ioutil_ReadDir = (\<lambda>dirname t. (listing, t @ [ReadDirCall dirname])),
      filepath_Join = (\<lambda>dir name. dir @ ''/'' @ name),
      exec_Run = (\<lambda>name args t. (runErr, t @ [RunCall name args])),
      os_Create = (\<lambda>name t. ((3, createErr), t @ [CreateCall name])),
      File_Truncate = (\<lambda>f sz t. (truncateErr, t @ [TruncateCall f sz])),
      File_Close = (\<lambda>f t. (None, t @ [CloseCall f]))\<rparr>"

section \<open>Properties\<close>

subsection \<open>The two loops\<close>

lemma rangeFiles_map:
  "rangeFiles sys dirPath files filesPath =
     filesPath @ map (\<lambda>file. fi_Name file @ ''='' @ filepath_Join sys dirPath (fi_Name file)) files"
  by (induction files arbitrary: filesPath) (simp_all add: Let_def)

lemma rangeVolumeStatus_find:
  "rangeVolumeStatus vss (Some volume) =
     map_option (\<lambda>vs. Returns (vs_Size vs, None)) (find (\<lambda>vs. vs_Name vs = vol_Name volume) vss)"
  by (induction vss) simp_all

lemma find_Some_holds: "find P xs = Some x \<Longrightarrow> P x \<and> x \<in> set xs"
  by (induction xs) (auto split: if_splits)

subsection \<open>Size resolution followed by image creation\<close>




subsection \<open>Dispatch of \<^verbatim>\<open>createIsoConfigImage\<close>\<close>

text \<open>
  C2. With both strategy slots set, \<^verbatim>\<open>createIsoConfigImage\<close> calls the populated-image
  strategy on output path, volume ID and file entries when the size is 0, and the
  empty-image strategy on output path and size otherwise (the file entries are not
  passed on); what it returns, error and world, is what the called strategy returned.
\<close>

theorem createIsoConfigImage_dispatch:
  assumes "createISOImage g = Some isoFunc" and "createEmptyISOImage g = Some emptyIsoFunc"
  shows "createIsoConfigImage g output volID files sz w =
           Returns (if sz = 0 then isoFunc output volID files w else emptyIsoFunc output sz w)"
  using assms by (simp add: createIsoConfigImage_def split: prod.split)

text \<open>The theorem on the recording strategies, at size 0 and at size 4096.\<close>

theorem createIsoConfigImage_dispatch_witness:
  "createIsoConfigImage recordingGlobals ''/d/cm.iso'' ''vid'' [''a=/s/a''] 0 [] =
     Returns (None, [IsoCall ''/d/cm.iso'' ''vid'' [''a=/s/a'']]) \<and>
   createIsoConfigImage recordingGlobals ''/d/cm.iso'' ''vid'' [''a=/s/a''] 4096 [] =
     Returns (None, [EmptyIsoCall ''/d/cm.iso'' 4096])"
  using createIsoConfigImage_dispatch [of recordingGlobals _ _ "''/d/cm.iso''" "''vid''" "[''a=/s/a'']" 0 "[]"]
        createIsoConfigImage_dispatch [of recordingGlobals _ _ "''/d/cm.iso''" "''vid''" "[''a=/s/a'']" 4096 "[]"]
  by (simp add: recordingGlobals_def)

subsection \<open>\<^verbatim>\<open>findIsoSize\<close>\<close>

text \<open>
  C3. With \<^verbatim>\<open>emptyIso = true\<close>, \<^verbatim>\<open>findIsoSize\<close> returns the size of the first volume
  status whose name is the volume's name, with a nil error; when there is none it
  returns the error \<^verbatim>\<open>failed to find the status of volume <name>\<close>. It returns that
  error if and only if no entry of the status list has the volume's name.
\<close>

theorem findIsoSize_empty:
  "findIsoSize (Some vmi) (Some volume) True =
     (case find (\<lambda>vs. vs_Name vs = vol_Name volume) (VolumeStatus (Status vmi)) of
        Some vs \<Rightarrow> Returns (vs_Size vs, None)
      | None \<Rightarrow> Returns (0, Some (Errorf (''failed to find the status of volume '' @ vol_Name volume)))) \<and>
   (findIsoSize (Some vmi) (Some volume) True =
      Returns (0, Some (Errorf (''failed to find the status of volume '' @ vol_Name volume))) \<longleftrightarrow>
    (\<forall>vs \<in> set (VolumeStatus (Status vmi)). vs_Name vs \<noteq> vol_Name volume))"
proof (cases "find (\<lambda>vs. vs_Name vs = vol_Name volume) (VolumeStatus (Status vmi))")
  case None
  then have "\<forall>vs \<in> set (VolumeStatus (Status vmi)). vs_Name vs \<noteq> vol_Name volume"
    by (simp add: find_None_iff)
  with None show ?thesis
    by (simp add: findIsoSize_def rangeVolumeStatus_find)
next
  case (Some vs)
  from find_Some_holds [OF Some]
  have "\<exists>vs \<in> set (VolumeStatus (Status vmi)). vs_Name vs = vol_Name volume"
    by blast
  with Some show ?thesis
    by (simp add: findIsoSize_def rangeVolumeStatus_find)
qed

text \<open>
  The theorem at a status with two entries named \<^verbatim>\<open>v1\<close> (the first one's size is
  returned) and at a status with no entry named \<^verbatim>\<open>v1\<close>.
\<close>

theorem findIsoSize_empty_witness:
  "findIsoSize (Some \<lparr>Status = \<lparr>VolumeStatus = [\<lparr>vs_Name = ''v2'', vs_Size = 7\<rparr>, \<lparr>vs_Name = ''v1'', vs_Size = 2048\<rparr>, \<lparr>vs_Name = ''v1'', vs_Size = 9\<rparr>]\<rparr>\<rparr>)
     (Some \<lparr>vol_Name = ''v1''\<rparr>) True = Returns (2048, None) \<and>
   findIsoSize (Some \<lparr>Status = \<lparr>VolumeStatus = [\<lparr>vs_Name = ''v2'', vs_Size = 2048\<rparr>]\<rparr>\<rparr>)
     (Some \<lparr>vol_Name = ''v1''\<rparr>) True = Returns (0, Some (Errorf ''failed to find the status of volume v1''))"
  using findIsoSize_empty [of "\<lparr>Status = \<lparr>VolumeStatus = [\<lparr>vs_Name = ''v2'', vs_Size = 7\<rparr>, \<lparr>vs_Name = ''v1'', vs_Size = 2048\<rparr>, \<lparr>vs_Name = ''v1'', vs_Size = 9\<rparr>]\<rparr>\<rparr>" "\<lparr>vol_Name = ''v1''\<rparr>"]
        findIsoSize_empty [of "\<lparr>Status = \<lparr>VolumeStatus = [\<lparr>vs_Name = ''v2'', vs_Size = 2048\<rparr>]\<rparr>\<rparr>" "\<lparr>vol_Name = ''v1''\<rparr>"]
  by simp

text \<open>
  C4. With \<^verbatim>\<open>emptyIso = false\<close>, \<^verbatim>\<open>findIsoSize\<close> returns size 0 and a nil error
  for every instance and volume argument, nil pointers included: the status is not read.
\<close>

theorem findIsoSize_populated: "findIsoSize vmi volume False = Returns (0, None)"
  by (simp add: findIsoSize_def)

subsection \<open>The default populated-image builder\<close>

text \<open>
  C5. \<^verbatim>\<open>defaultCreateIsoImage\<close> is one run of the program \<^verbatim>\<open>xorrisofs\<close> with the
  arguments \<^verbatim>\<open>-output <output> -follow-links -volid <volID> -joliet -rock -graft-points
  -partition_cyl_align on\<close> followed by the file entries in their order, where the
  volume ID is \<^verbatim>\<open>cfgdata\<close> when the caller passes the empty string and the caller's
  volume ID otherwise; its result is the result of that run.
\<close>

theorem defaultCreateIsoImage_args:
  "defaultCreateIsoImage sys output volID files w =
     exec_Run sys ''xorrisofs''
       ([''-output'', output, ''-follow-links'', ''-volid'',
         if volID = [] then ''cfgdata'' else volID,
         ''-joliet'', ''-rock'', ''-graft-points'', ''-partition_cyl_align'', ''on''] @ files) w"
  by (simp add: defaultCreateIsoImage_def Let_def split: prod.split)

text \<open>
  The theorem on the scripted operating system, with an empty and with a non-empty
  volume ID: the trace holds the one run and its arguments.
\<close>

theorem defaultCreateIsoImage_args_witness:
  "defaultCreateIsoImage (scriptedSys ([], None) None None None) ''/d/cm.iso'' [] [''a=/s/a'', ''b=/s/b''] [] =
     (None, [RunCall ''xorrisofs'' [''-output'', ''/d/cm.iso'', ''-follow-links'', ''-volid'', ''cfgdata'',
        ''-joliet'', ''-rock'', ''-graft-points'', ''-partition_cyl_align'', ''on'', ''a=/s/a'', ''b=/s/b'']]) \<and>
   defaultCreateIsoImage (scriptedSys ([], None) None None None) ''/d/cm.iso'' ''vid'' [] [] =
     (None, [RunCall ''xorrisofs'' [''-output'', ''/d/cm.iso'', ''-follow-links'', ''-volid'', ''vid'',
        ''-joliet'', ''-rock'', ''-graft-points'', ''-partition_cyl_align'', ''on'']])"
  using defaultCreateIsoImage_args [of "scriptedSys ([], None) None None None" "''/d/cm.iso''" "[]" "[''a=/s/a'', ''b=/s/b'']" "[]"]
        defaultCreateIsoImage_args [of "scriptedSys ([], None) None None None" "''/d/cm.iso''" "''vid''" "[]" "[]"]
  by (simp add: scriptedSys_def)

subsection \<open>\<^verbatim>\<open>getFilesLayout\<close>\<close>

text \<open>
  C6. When \<^verbatim>\<open>ioutil.ReadDir\<close> lists the directory without error, \<^verbatim>\<open>getFilesLayout\<close>
  returns, in the order of the listing, one entry for each listed entry and no other,
  each the entry's name, \<^verbatim>\<open>=\<close>, and \<^verbatim>\<open>filepath.Join\<close> of the directory path and the
  name; the error is nil. For a listing whose names are \<open>a\<close> and \<open>b\<close> the result, as a
  set, is the two entries for \<open>a\<close> and \<open>b\<close>.
\<close>

theorem getFilesLayout_entries:
  assumes "ioutil_ReadDir sys dirPath w = ((files, None), w1)"
  shows "getFilesLayout sys dirPath w =
           ((map (\<lambda>file. fi_Name file @ ''='' @ filepath_Join sys dirPath (fi_Name file)) files, None), w1) \<and>
         length (fst (fst (getFilesLayout sys dirPath w))) = length files \<and>
         (fi_Name ` set files = {a, b} \<longrightarrow>
            set (fst (fst (getFilesLayout sys dirPath w))) =
              {a @ ''='' @ filepath_Join sys dirPath a, b @ ''='' @ filepath_Join sys dirPath b})"
proof -
  have eq: "getFilesLayout sys dirPath w =
      ((map (\<lambda>file. fi_Name file @ ''='' @ filepath_Join sys dirPath (fi_Name file)) files, None), w1)"
    using assms by (simp add: getFilesLayout_def rangeFiles_map)
  have "set (map (\<lambda>file. fi_Name file @ ''='' @ filepath_Join sys dirPath (fi_Name file)) files) =
      (\<lambda>n. n @ ''='' @ filepath_Join sys dirPath n) ` (fi_Name ` set files)"
    by (simp add: image_image)
  then show ?thesis
    unfolding eq by simp
qed

text \<open>
  The theorem on a directory that holds a file \<^verbatim>\<open>a\<close> and a subdirectory \<^verbatim>\<open>b\<close>: two
  entries, the subdirectory is not descended into.
\<close>

theorem getFilesLayout_entries_witness:
  "getFilesLayout
     (scriptedSys ([\<lparr>fi_Name = ''a'', fi_IsDir = False\<rparr>, \<lparr>fi_Name = ''b'', fi_IsDir = True\<rparr>], None) None None None)
     ''/var/run/kubevirt-private/config-map'' [] =
     (([''a=/var/run/kubevirt-private/config-map/a'', ''b=/var/run/kubevirt-private/config-map/b''], None),
      [ReadDirCall ''/var/run/kubevirt-private/config-map'']) \<and>
   set (fst (fst (getFilesLayout
     (scriptedSys ([\<lparr>fi_Name = ''a'', fi_IsDir = False\<rparr>, \<lparr>fi_Name = ''b'', fi_IsDir = True\<rparr>], None) None None None)
     ''/var/run/kubevirt-private/config-map'' []))) =
     {''b=/var/run/kubevirt-private/config-map/b'', ''a=/var/run/kubevirt-private/config-map/a''}"
  using getFilesLayout_entries [of
      "scriptedSys ([\<lparr>fi_Name = ''a'', fi_IsDir = False\<rparr>, \<lparr>fi_Name = ''b'', fi_IsDir = True\<rparr>], None) None None None"
      "''/var/run/kubevirt-private/config-map''" "[]"
      "[\<lparr>fi_Name = ''a'', fi_IsDir = False\<rparr>, \<lparr>fi_Name = ''b'', fi_IsDir = True\<rparr>]"
      "[ReadDirCall ''/var/run/kubevirt-private/config-map'']" "''a''" "''b''"]
  by (simp add: scriptedSys_def insert_commute)

text \<open>
  C8. When \<^verbatim>\<open>ioutil.ReadDir\<close> fails, \<^verbatim>\<open>getFilesLayout\<close> returns that error and no
  entry, also when a listing came with the error.
\<close>

theorem getFilesLayout_error:
  assumes "ioutil_ReadDir sys dirPath w = ((files, Some e), w1)"
  shows "getFilesLayout sys dirPath w = (([], Some e), w1)"
  using assms by (simp add: getFilesLayout_def)

text \<open>The theorem on a missing directory, the failed listing carrying one entry.\<close>

theorem getFilesLayout_error_witness:
  "getFilesLayout
     (scriptedSys ([\<lparr>fi_Name = ''a'', fi_IsDir = False\<rparr>], Some (SysError ''open /nonexistent: no such file or directory'')) None None None)
     ''/nonexistent'' [] =
     (([], Some (SysError ''open /nonexistent: no such file or directory'')), [ReadDirCall ''/nonexistent''])"
  using getFilesLayout_error [of
      "scriptedSys ([\<lparr>fi_Name = ''a'', fi_IsDir = False\<rparr>], Some (SysError ''open /nonexistent: no such file or directory'')) None None None"
      "''/nonexistent''" "[]" "[\<lparr>fi_Name = ''a'', fi_IsDir = False\<rparr>]"
      "SysError ''open /nonexistent: no such file or directory''" "[ReadDirCall ''/nonexistent'']"]
  by (simp add: scriptedSys_def)

text \<open>
  C10. When \<^verbatim>\<open>ioutil.ReadDir\<close> lists a directory without error and the listing is
  empty, \<^verbatim>\<open>getFilesLayout\<close> returns no entry and a nil error.
\<close>

theorem getFilesLayout_empty_dir:
  assumes "ioutil_ReadDir sys dirPath w = (([], None), w1)"
  shows "getFilesLayout sys dirPath w = (([], None), w1)"
  using assms by (simp add: getFilesLayout_def)

text \<open>The theorem on an empty directory.\<close>

theorem getFilesLayout_empty_dir_witness:
  "getFilesLayout (scriptedSys ([], None) None None None) ''/var/run/kubevirt-private/secret'' [] =
     (([], None), [ReadDirCall ''/var/run/kubevirt-private/secret''])"
  using getFilesLayout_empty_dir [of "scriptedSys ([], None) None None None"
      "''/var/run/kubevirt-private/secret''" "[]" "[ReadDirCall ''/var/run/kubevirt-private/secret'']"]
  by (simp add: scriptedSys_def)

subsection \<open>The default empty-image builder\<close>

text \<open>
  C7 (as the code has it). When \<^verbatim>\<open>os.Create\<close> fails, \<^verbatim>\<open>defaultCreateEmptyIsoImage\<close>
  returns the error \<^verbatim>\<open>failed to create empty iso: '<output>'\<close>; when the file is
  created and \<^verbatim>\<open>Truncate\<close> fails, it returns the error
  \<^verbatim>\<open>failed to inflate empty iso: '<output>'\<close>, after closing the file. Either message
  names the output path and is the same for every error \<open>e\<close> of the library call;
  when neither call fails the result is nil, after closing the file.
\<close>

theorem defaultCreateEmptyIsoImage_errors:
  "(os_Create sys output w = ((f, Some e), w1) \<longrightarrow>
      defaultCreateEmptyIsoImage sys output sz w =
        (Some (Errorf (''failed to create empty iso: '' @ [CHR 0x27] @ output @ [CHR 0x27])), w1)) \<and>
   (os_Create sys output w = ((f, None), w1) \<and> File_Truncate sys f sz w1 = (Some e, w2) \<longrightarrow>
      defaultCreateEmptyIsoImage sys output sz w =
        (Some (Errorf (''failed to inflate empty iso: '' @ [CHR 0x27] @ output @ [CHR 0x27])),
         snd (File_Close sys f w2))) \<and>
   (os_Create sys output w = ((f, None), w1) \<and> File_Truncate sys f sz w1 = (None, w2) \<longrightarrow>
      defaultCreateEmptyIsoImage sys output sz w = (None, snd (File_Close sys f w2)))"
  by (simp add: defaultCreateEmptyIsoImage_def split: prod.split)

text \<open>
  The theorem on three scripted operating systems: creation fails, truncation fails,
  nothing fails.
\<close>

theorem defaultCreateEmptyIsoImage_errors_witness:
  "defaultCreateEmptyIsoImage (scriptedSys ([], None) None (Some (SysError ''permission denied'')) None)
     ''/d/cm.iso'' 4096 [] =
     (Some (Errorf (''failed to create empty iso: '' @ [CHR 0x27] @ ''/d/cm.iso'' @ [CHR 0x27])),
      [CreateCall ''/d/cm.iso'']) \<and>
   defaultCreateEmptyIsoImage (scriptedSys ([], None) None None (Some (SysError ''no space left on device'')))
     ''/d/cm.iso'' 4096 [] =
     (Some (Errorf (''failed to inflate empty iso: '' @ [CHR 0x27] @ ''/d/cm.iso'' @ [CHR 0x27])),
      [CreateCall ''/d/cm.iso'', TruncateCall 3 4096, CloseCall 3]) \<and>
   defaultCreateEmptyIsoImage (scriptedSys ([], None) None None None) ''/d/cm.iso'' 4096 [] =
     (None, [CreateCall ''/d/cm.iso'', TruncateCall 3 4096, CloseCall 3])"
  using defaultCreateEmptyIsoImage_errors [of
      "scriptedSys ([], None) None (Some (SysError ''permission denied'')) None" "''/d/cm.iso''" "[]"
      3 "SysError ''permission denied''" "[CreateCall ''/d/cm.iso'']" 4096 "[]"]
    defaultCreateEmptyIsoImage_errors [of
      "scriptedSys ([], None) None None (Some (SysError ''no space left on device''))" "''/d/cm.iso''" "[]"
      3 "SysError ''no space left on device''" "[CreateCall ''/d/cm.iso'']" 4096
      "[CreateCall ''/d/cm.iso'', TruncateCall 3 4096]"]
    defaultCreateEmptyIsoImage_errors [of
      "scriptedSys ([], None) None None None" "''/d/cm.iso''" "[]"
      3 "SysError ''no space left on device''" "[CreateCall ''/d/cm.iso'']" 4096
      "[CreateCall ''/d/cm.iso'', TruncateCall 3 4096]"]
  by (simp add: scriptedSys_def)

text \<open>
  C7 as stated fails: the error of the library call is not in the returned error.
  With \<^verbatim>\<open>os.Create\<close> failing with \<^verbatim>\<open>permission denied\<close>, the returned error is
  \<^verbatim>\<open>failed to create empty iso: '/d/cm.iso'\<close>, whose text does not contain the text of
  the library's error, and the same error is returned when \<^verbatim>\<open>os.Create\<close> fails with
  \<^verbatim>\<open>read-only file system\<close>.
\<close>

theorem defaultCreateEmptyIsoImage_counterexample:
  "fst (defaultCreateEmptyIsoImage (scriptedSys ([], None) None (Some (SysError ''permission denied'')) None)
     ''/d/cm.iso'' 4096 []) =
     Some (Errorf (''failed to create empty iso: '' @ [CHR 0x27] @ ''/d/cm.iso'' @ [CHR 0x27])) \<and>
   \<not> sublist (Error (SysError ''permission denied''))
       (Error (Errorf (''failed to create empty iso: '' @ [CHR 0x27] @ ''/d/cm.iso'' @ [CHR 0x27]))) \<and>
   fst (defaultCreateEmptyIsoImage (scriptedSys ([], None) None (Some (SysError ''read-only file system'')) None)
     ''/d/cm.iso'' 4096 []) =
     fst (defaultCreateEmptyIsoImage (scriptedSys ([], None) None (Some (SysError ''permission denied'')) None)
     ''/d/cm.iso'' 4096 [])"
  by (simp add: defaultCreateEmptyIsoImage_def scriptedSys_def sublist_Cons_right)

subsection \<open>The setters\<close>

text \<open>
  C9. \<^verbatim>\<open>setIsoCreationFunction\<close> stores its argument in \<^verbatim>\<open>createISOImage\<close> and leaves
  \<^verbatim>\<open>createEmptyISOImage\<close> as it was; \<^verbatim>\<open>setEmptyIsoCreationFunction\<close> stores its
  argument in \<^verbatim>\<open>createEmptyISOImage\<close> and leaves \<^verbatim>\<open>createISOImage\<close> as it was.
\<close>

theorem setters_frame:
  "createISOImage (setIsoCreationFunction isoFunc g) = isoFunc \<and>
   createEmptyISOImage (setIsoCreationFunction isoFunc g) = createEmptyISOImage g \<and>
   createEmptyISOImage (setEmptyIsoCreationFunction emptyIsoFunc g) = emptyIsoFunc \<and>
   createISOImage (setEmptyIsoCreationFunction emptyIsoFunc g) = createISOImage g"
  by (simp add: setIsoCreationFunction_def setEmptyIsoCreationFunction_def)

end
